theory Spec2Isabelle
  imports Complex_Main "HOL-Library.Sublist"
begin

section \<open>Floating-point values\<close>

text \<open>
  The pipeline computes on IEEE doubles (numpy \<^verbatim>\<open>float64\<close>). A double is embedded as a
  real, extended with the one special value the statistics can produce, \<^verbatim>\<open>nan\<close>. The
  operations of this section are exact on finite operands and propagate \<^verbatim>\<open>nan\<close>; every
  comparison with \<^verbatim>\<open>nan\<close> is false, also \<^verbatim>\<open>nan == nan\<close>. The rounded operations follow in
  the section on rounded arithmetic.
\<close>

datatype float64 = Fin real | NaN

fun fadd :: "float64 \<Rightarrow> float64 \<Rightarrow> float64" where
  "fadd (Fin a) (Fin b) = Fin (a + b)"
| "fadd _ _ = NaN"

fun fsub :: "float64 \<Rightarrow> float64 \<Rightarrow> float64" where
  "fsub (Fin a) (Fin b) = Fin (a - b)"
| "fsub _ _ = NaN"

fun fmul :: "float64 \<Rightarrow> float64 \<Rightarrow> float64" where
  "fmul (Fin a) (Fin b) = Fin (a * b)"
| "fmul _ _ = NaN"

fun fsqrt :: "float64 \<Rightarrow> float64" where
  "fsqrt (Fin a) = (if a < 0 then NaN else Fin (sqrt a))"
| "fsqrt NaN = NaN"

fun fgt :: "float64 \<Rightarrow> float64 \<Rightarrow> bool" where
  "fgt (Fin a) (Fin b) = (a > b)"
| "fgt _ _ = False"

fun flt :: "float64 \<Rightarrow> float64 \<Rightarrow> bool" where
  "flt (Fin a) (Fin b) = (a < b)"
| "flt _ _ = False"


section \<open>Configuration\<close>

record config =
  data_path :: string
  plot_path :: string
  report_path :: string
  days :: nat
  hours_per_day :: nat
  anomaly_threshold :: real
  arima_order :: "nat \<times> nat \<times> nat"

definition CONFIG :: config where
  "CONFIG = \<lparr> data_path = ''data/cpu_data.csv'',
              plot_path = ''outputs/detection_plot.png'',
              report_path = ''outputs/anomaly_report.csv'',
              days = 30,
              hours_per_day = 24,
              anomaly_threshold = 5 / 2,
              arima_order = (5, 1, 0) \<rparr>"

section \<open>Column statistics\<close>

text \<open>
  \<^verbatim>\<open>Series.mean()\<close> and \<^verbatim>\<open>Series.std()\<close> of pandas on a column of finite values.
  The mean of an empty column is \<^verbatim>\<open>nan\<close>. The variance divides the sum of squared
  deviations by \<^verbatim>\<open>count - ddof\<close> and is \<^verbatim>\<open>nan\<close> when \<^verbatim>\<open>count <= ddof\<close>;
  \<^verbatim>\<open>std()\<close> is called without arguments, so \<^verbatim>\<open>ddof\<close> is 1.
\<close>

definition series_mean :: "real list \<Rightarrow> float64" where
  "series_mean xs =
     (let count = length xs
      in if count > 0 then Fin (sum_list xs / real count) else NaN)"

definition series_var :: "nat \<Rightarrow> real list \<Rightarrow> float64" where
  "series_var ddof xs =
     (let count = length xs
      in if count \<le> ddof then NaN
         else (let avg = sum_list xs / real count;
                   sqr = map (\<lambda>x. (avg - x)\<^sup>2) xs
               in Fin (sum_list sqr / real (count - ddof))))"

definition series_std :: "nat \<Rightarrow> real list \<Rightarrow> float64" where
  "series_std ddof xs = fsqrt (series_var ddof xs)"

section \<open>Residual analysis\<close>

text \<open>
  The body of \<^verbatim>\<open>train_and_detect\<close> after the forecast: the residual column, the two
  statistics, the two thresholds and the flag column, each named as the source names it.
\<close>

definition residuals :: "real list \<Rightarrow> real list \<Rightarrow> real list" where
  "residuals observed predicted = map2 (-) observed predicted"

definition residual_mean :: "real list \<Rightarrow> float64" where
  "residual_mean rs = series_mean rs"

definition residual_std :: "real list \<Rightarrow> float64" where
  "residual_std rs = series_std 1 rs"

definition upper_threshold :: "config \<Rightarrow> real list \<Rightarrow> float64" where
  "upper_threshold cfg rs =
     fadd (residual_mean rs) (fmul (Fin (anomaly_threshold cfg)) (residual_std rs))"

definition lower_threshold :: "config \<Rightarrow> real list \<Rightarrow> float64" where
  "lower_threshold cfg rs =
     fsub (residual_mean rs) (fmul (Fin (anomaly_threshold cfg)) (residual_std rs))"

definition flag_anomalies :: "config \<Rightarrow> real list \<Rightarrow> bool list" where
  "flag_anomalies cfg rs =
     map (\<lambda>r. fgt (Fin r) (upper_threshold cfg rs) \<or> flt (Fin r) (lower_threshold cfg rs)) rs"

definition anomaly_count :: "bool list \<Rightarrow> nat" where
  "anomaly_count flags = (\<Sum>f\<leftarrow>flags. if f then 1 else 0)"

section \<open>Frames, files and errors\<close>

text \<open>
  A data frame is a list of rows in index order. The generator's frame has the columns
  \<^verbatim>\<open>timestamp\<close> (hours since 2024-01-01 00:00, the start of the hourly
  \<^verbatim>\<open>date_range\<close>) and \<^verbatim>\<open>cpu_percent\<close>; \<^verbatim>\<open>train_and_detect\<close> adds the other three.
\<close>

record row =
  timestamp :: nat
  cpu_percent :: real

record arow = row +
  predicted :: real
  residual :: real
  is_anomaly :: bool

record plot =
  actual_line :: "(nat \<times> real) list"
  predicted_line :: "(nat \<times> real) list"
  anomaly_markers :: "(nat \<times> real) list"
  title_threshold :: real
  title_found :: nat

datatype file_content = DataCsv "row list" | ReportCsv "arow list" | PlotPng plot

type_synonym files = "string \<Rightarrow> file_content option"

text \<open>
  \<^verbatim>\<open>IndexError\<close> is numpy's out-of-bounds store; \<^verbatim>\<open>ModelFitError\<close> stands for any
  exception the forecasting library raises while fitting. Failing file writes are not
  modelled.
\<close>

datatype error = IndexError | ModelFitError

section \<open>Series generator\<close>

text \<open>
  numpy's global random generator is a state of type \<^typ>\<open>'g\<close> with the three operations
  the generator calls; which numbers they return is left open.
\<close>

record 'g rng =
  seed :: "nat \<Rightarrow> 'g"
  normal :: "real \<Rightarrow> real \<Rightarrow> 'g \<Rightarrow> real \<times> 'g"
  choice :: "real list \<Rightarrow> 'g \<Rightarrow> real \<times> 'g"

record 'g world =
  rng_state :: 'g
  disk :: files

fun normal_n :: "'g rng \<Rightarrow> real \<Rightarrow> real \<Rightarrow> nat \<Rightarrow> 'g \<Rightarrow> real list \<times> 'g" where
  "normal_n R loc scale 0 g = ([], g)"
| "normal_n R loc scale (Suc n) g =
     (let (x, g1) = normal R loc scale g;
          (xs, g2) = normal_n R loc scale n g1
      in (x # xs, g2))"

definition clip :: "real \<Rightarrow> real \<Rightarrow> real \<Rightarrow> real" where
  "clip x lo hi = min (max x lo) hi"

definition anomalies_indices :: "nat list" where
  "anomalies_indices = [50, 120, 300, 550, 680]"

fun inject_anomalies ::
  "'g rng \<Rightarrow> nat list \<Rightarrow> real list \<Rightarrow> 'g \<Rightarrow> error + (real list \<times> 'g)" where
  "inject_anomalies R [] cpu_usage g = Inr (cpu_usage, g)"
| "inject_anomalies R (idx # rest) cpu_usage g =
     (if idx < length cpu_usage
      then (let (c, g1) = choice R [30, - 25] g
            in inject_anomalies R rest (cpu_usage[idx := cpu_usage ! idx + c]) g1)
      else Inl IndexError)"

definition generate_synthetic_data ::
  "'g rng \<Rightarrow> config \<Rightarrow> 'g world \<Rightarrow> error + (row list \<times> 'g world)" where
  "generate_synthetic_data R cfg w =
     (let g0 = seed R 42;
          total_hours = days cfg * hours_per_day cfg;
          time = [0..<total_hours];
          seasonality = map (\<lambda>t. 10 * sin (2 * pi * real t / 24)) time;
          trend = map (\<lambda>t. 0.05 * real t) time;
          (noise, g1) = normal_n R 0 2 total_hours g0;
          cpu_usage = map2 (+) (map2 (+) (map (\<lambda>s. 40 + s) seasonality) trend) noise
      in case inject_anomalies R anomalies_indices cpu_usage g1 of
           Inl e \<Rightarrow> Inl e
         | Inr (spiked, g2) \<Rightarrow>
             (let clipped = map (\<lambda>x. clip x 0 100) spiked;
                  df = map2 (\<lambda>d c. \<lparr> timestamp = d, cpu_percent = c \<rparr>) time clipped
              in Inr (df, \<lparr> rng_state = g2, disk = (disk w)(data_path cfg \<mapsto> DataCsv df) \<rparr>)))"

section \<open>Training and detection\<close>

text \<open>
  The forecasting library is a parameter: \<^verbatim>\<open>fit\<close> is \<^verbatim>\<open>ARIMA(series, order).fit()\<close>, which
  returns a fitted model or raises, and \<^verbatim>\<open>predict_at\<close> is the fitted model's in-sample
  prediction at one index, so that \<^verbatim>\<open>predict(start=0, end=len(df)-1)\<close> is one value per row.
\<close>

record 'm arima =
  fit :: "real list \<Rightarrow> nat \<times> nat \<times> nat \<Rightarrow> error + 'm"
  predict_at :: "'m \<Rightarrow> nat \<Rightarrow> real"

definition annotate :: "config \<Rightarrow> 'a row_scheme list \<Rightarrow> real list \<Rightarrow> arow list" where
  "annotate cfg df pred =
     (let rs = residuals (map cpu_percent df) pred;
          flags = flag_anomalies cfg rs
      in map (\<lambda>(r, p, e, a).
                \<lparr> timestamp = timestamp r, cpu_percent = cpu_percent r,
                  predicted = p, residual = e, is_anomaly = a \<rparr>)
             (zip df (zip pred (zip rs flags))))"

definition train_and_detect ::
  "'m arima \<Rightarrow> config \<Rightarrow> 'a row_scheme list \<Rightarrow> error + (arow list \<times> 'm)" where
  "train_and_detect A cfg df =
     (let series = map cpu_percent df
      in case fit A series (arima_order cfg) of
           Inl e \<Rightarrow> Inl e
         | Inr model_fit \<Rightarrow>
             Inr (annotate cfg df (map (predict_at A model_fit) [0..<length df]), model_fit))"

section \<open>Visualisation and report\<close>

definition visualize_results :: "config \<Rightarrow> arow list \<Rightarrow> files \<Rightarrow> files" where
  "visualize_results cfg df fs =
     (let anomalies = filter is_anomaly df
      in fs(plot_path cfg \<mapsto> PlotPng
           \<lparr> actual_line = map (\<lambda>r. (timestamp r, cpu_percent r)) df,
             predicted_line = map (\<lambda>r. (timestamp r, predicted r)) df,
             anomaly_markers = map (\<lambda>r. (timestamp r, cpu_percent r)) anomalies,
             title_threshold = anomaly_threshold cfg,
             title_found = length anomalies \<rparr>))"

definition save_report :: "config \<Rightarrow> arow list \<Rightarrow> files \<Rightarrow> files" where
  "save_report cfg df fs =
     (let anomalies = filter is_anomaly df
      in fs(report_path cfg \<mapsto> ReportCsv anomalies))"

definition main :: "'g rng \<Rightarrow> 'm arima \<Rightarrow> config \<Rightarrow> 'g world \<Rightarrow> error + 'g world" where
  "main R A cfg w =
     (case generate_synthetic_data R cfg w of
        Inl e \<Rightarrow> Inl e
      | Inr (data, w1) \<Rightarrow>
          (case train_and_detect A cfg data of
             Inl e \<Rightarrow> Inl e
           | Inr (results, model) \<Rightarrow>
               Inr (w1\<lparr> disk := save_report cfg results
                                  (visualize_results cfg results (disk w1)) \<rparr>)))"

section \<open>Auxiliary definitions\<close>

text \<open>
  The value of \<^verbatim>\<open>cpu_usage\<close> before the injection loop of \<^verbatim>\<open>generate_synthetic_data\<close>.
\<close>

definition base_usage :: "'g rng \<Rightarrow> config \<Rightarrow> real list" where
  "base_usage R cfg =
     (let total_hours = days cfg * hours_per_day cfg;
          time = [0..<total_hours]
      in map2 (+) (map2 (+) (map (\<lambda>s. 40 + s) (map (\<lambda>t. 10 * sin (2 * pi * real t / 24)) time))
                            (map (\<lambda>t. 0.05 * real t) time))
                  (fst (normal_n R 0 2 total_hours (seed R 42))))"

text \<open>
  Concrete instances for evaluation: a random source that counts its draws, a forecasting
  library that predicts 0 everywhere and refuses series shorter than two points, an empty
  disk, and two small frames.
\<close>

definition rng_example :: "nat rng" where
  "rng_example = \<lparr> seed = (\<lambda>n. n), normal = (\<lambda>loc scale g. (loc, Suc g)),
          choice = (\<lambda>xs g. (hd xs, Suc g)) \<rparr>"

definition world_example :: "nat world" where
  "world_example = \<lparr> rng_state = 0, disk = (\<lambda>p. None) \<rparr>"

definition arima_example :: "unit arima" where
  "arima_example = \<lparr> fit = (\<lambda>series order. if length series < 2 then Inl ModelFitError else Inr ()),
          predict_at = (\<lambda>m i. 0) \<rparr>"

definition frame_example :: "row list" where
  "frame_example = [\<lparr> timestamp = 0, cpu_percent = 0 \<rparr>, \<lparr> timestamp = 1, cpu_percent = 0 \<rparr>]"

definition frame_example_annotated :: "arow list" where
  "frame_example_annotated =
     [\<lparr> timestamp = 0, cpu_percent = 0, predicted = 0, residual = 0, is_anomaly = False \<rparr>,
      \<lparr> timestamp = 1, cpu_percent = 0, predicted = 0, residual = 0, is_anomaly = False \<rparr>]"

definition frame_flagged :: "arow list" where
  "frame_flagged =
     [\<lparr> timestamp = 0, cpu_percent = 40, predicted = 40, residual = 0, is_anomaly = False \<rparr>,
      \<lparr> timestamp = 1, cpu_percent = 90, predicted = 41, residual = 49, is_anomaly = True \<rparr>,
      \<lparr> timestamp = 2, cpu_percent = 42, predicted = 42, residual = 0, is_anomaly = False \<rparr>]"

section \<open>Reference statistics\<close>

text \<open>
  The sum of squared deviations from the mean, as \<^verbatim>\<open>std()\<close> accumulates it, and the
  mean and the sample standard deviation the way the specification words them: over all
  residuals of the run, with the divisor \<open>N - 1\<close>.
\<close>

definition sq_dev :: "real list \<Rightarrow> real" where
  "sq_dev rs = (\<Sum>x\<leftarrow>rs. (sum_list rs / real (length rs) - x)\<^sup>2)"

definition spec_mean :: "real list \<Rightarrow> real" where
  "spec_mean rs = (\<Sum>i = 0..<length rs. rs ! i) / real (length rs)"

definition spec_sample_std :: "real list \<Rightarrow> real" where
  "spec_sample_std rs =
     sqrt ((\<Sum>i = 0..<length rs. (rs ! i - spec_mean rs)\<^sup>2) / (real (length rs) - 1))"

section \<open>Rounded arithmetic\<close>

text \<open>
  The definitions above compute on exact reals. The code computes on doubles, and each of
  its operations rounds. Where rounding decides a property, the residual analysis is
  modelled a second time with every operation followed by a rounding function.

  \<open>rnd64\<close> is IEEE 754 binary64 rounding: to the nearest multiple of the unit in the
  last place of a 53-bit significand, ties to the even multiple, with gradual underflow
  (below \<open>2 powi (- 1022)\<close> the unit stays \<open>2 powi (- 1074)\<close>). Overflow to infinity is not
  modelled: results are assumed to stay below \<open>2 powi 1024\<close>, as they do for readings
  between 0 and 100.
\<close>

definition round_even :: "real \<Rightarrow> int" where
  "round_even y =
     (let f = \<lfloor>y\<rfloor>; d = y - of_int f
      in if d < 1 / 2 then f else if 1 / 2 < d then f + 1 else if even f then f else f + 1)"

definition ulp_exponent :: "real \<Rightarrow> int" where
  "ulp_exponent x = max \<lfloor>log 2 \<bar>x\<bar>\<rfloor> (- 1022) - 52"

definition rnd64 :: "real \<Rightarrow> real" where
  "rnd64 x =
     (if x = 0 then 0
      else of_int (round_even (x / 2 powi ulp_exponent x)) * 2 powi ulp_exponent x)"

text \<open>
  An arithmetic is a rounding function together with the library's summation of an array.
  \<open>seq_sum\<close> adds from left to right, starting from 0, the order of a plain loop. numpy's
  order depends on the length of the array (longer arrays are added pairwise in blocks), so
  the summation stays a parameter of the model. \<open>binary64\<close> pairs \<open>rnd64\<close> with \<open>seq_sum\<close>;
  the two three-element runs evaluated in it below have the same sums in every order of the
  additions. \<open>exact\<close> is the arithmetic of the definitions above.
\<close>

record arith =
  rnd :: "real \<Rightarrow> real"
  fsum :: "real list \<Rightarrow> real"

definition seq_sum :: "(real \<Rightarrow> real) \<Rightarrow> real list \<Rightarrow> real" where
  "seq_sum r xs = foldl (\<lambda>acc x. r (acc + x)) 0 xs"

definition binary64 :: arith where
  "binary64 = \<lparr> rnd = rnd64, fsum = seq_sum rnd64 \<rparr>"

definition exact :: arith where
  "exact = \<lparr> rnd = (\<lambda>x. x), fsum = sum_list \<rparr>"

text \<open>
  The operations on doubles, rounded. \<^verbatim>\<open>nan\<close> propagates as before.
\<close>

fun fadd_fp :: "arith \<Rightarrow> float64 \<Rightarrow> float64 \<Rightarrow> float64" where
  "fadd_fp A (Fin a) (Fin b) = Fin (rnd A (a + b))"
| "fadd_fp A _ _ = NaN"

fun fsub_fp :: "arith \<Rightarrow> float64 \<Rightarrow> float64 \<Rightarrow> float64" where
  "fsub_fp A (Fin a) (Fin b) = Fin (rnd A (a - b))"
| "fsub_fp A _ _ = NaN"

fun fmul_fp :: "arith \<Rightarrow> float64 \<Rightarrow> float64 \<Rightarrow> float64" where
  "fmul_fp A (Fin a) (Fin b) = Fin (rnd A (a * b))"
| "fmul_fp A _ _ = NaN"

fun fsqrt_fp :: "arith \<Rightarrow> float64 \<Rightarrow> float64" where
  "fsqrt_fp A (Fin a) = (if a < 0 then NaN else Fin (rnd A (sqrt a)))"
| "fsqrt_fp A NaN = NaN"

text \<open>
  \<^verbatim>\<open>Series.mean()\<close>, \<^verbatim>\<open>Series.std()\<close> and the body of \<^verbatim>\<open>train_and_detect\<close>, operation by
  operation: the mean is the rounded quotient of the sum by the count; the variance squares
  each rounded deviation \<^verbatim>\<open>avg - x\<close>, rounds the square, sums, divides by \<^verbatim>\<open>count - ddof\<close>
  and rounds; the deviation is its rounded square root.
\<close>

definition series_mean_fp :: "arith \<Rightarrow> real list \<Rightarrow> float64" where
  "series_mean_fp A xs =
     (let count = length xs
      in if count > 0 then Fin (rnd A (fsum A xs / real count)) else NaN)"

definition series_var_fp :: "arith \<Rightarrow> nat \<Rightarrow> real list \<Rightarrow> float64" where
  "series_var_fp A ddof xs =
     (let count = length xs
      in if count \<le> ddof then NaN
         else (let avg = rnd A (fsum A xs / real count);
                   sqr = map (\<lambda>x. rnd A (rnd A (avg - x) * rnd A (avg - x))) xs
               in Fin (rnd A (fsum A sqr / real (count - ddof)))))"

definition series_std_fp :: "arith \<Rightarrow> nat \<Rightarrow> real list \<Rightarrow> float64" where
  "series_std_fp A ddof xs = fsqrt_fp A (series_var_fp A ddof xs)"

definition residuals_fp :: "arith \<Rightarrow> real list \<Rightarrow> real list \<Rightarrow> real list" where
  "residuals_fp A obs pred = map2 (\<lambda>obs pred. rnd A (obs - pred)) obs pred"

definition residual_mean_fp :: "arith \<Rightarrow> real list \<Rightarrow> float64" where
  "residual_mean_fp A rs = series_mean_fp A rs"

definition residual_std_fp :: "arith \<Rightarrow> real list \<Rightarrow> float64" where
  "residual_std_fp A rs = series_std_fp A 1 rs"

definition upper_threshold_fp :: "arith \<Rightarrow> config \<Rightarrow> real list \<Rightarrow> float64" where
  "upper_threshold_fp A cfg rs =
     fadd_fp A (residual_mean_fp A rs) (fmul_fp A (Fin (anomaly_threshold cfg)) (residual_std_fp A rs))"

definition lower_threshold_fp :: "arith \<Rightarrow> config \<Rightarrow> real list \<Rightarrow> float64" where
  "lower_threshold_fp A cfg rs =
     fsub_fp A (residual_mean_fp A rs) (fmul_fp A (Fin (anomaly_threshold cfg)) (residual_std_fp A rs))"

definition flag_anomalies_fp :: "arith \<Rightarrow> config \<Rightarrow> real list \<Rightarrow> bool list" where
  "flag_anomalies_fp A cfg rs =
     map (\<lambda>r. fgt (Fin r) (upper_threshold_fp A cfg rs) \<or> flt (Fin r) (lower_threshold_fp A cfg rs)) rs"





section \<open>Properties of the residual analysis\<close>

lemma length_residuals:
  "length obs = length pred \<Longrightarrow> length (residuals obs pred) = length obs"
  by (simp add: residuals_def)

lemma nth_residuals:
  "length obs = length pred \<Longrightarrow> i < length obs \<Longrightarrow>
   residuals obs pred ! i = obs ! i - pred ! i"
  by (simp add: residuals_def)

lemma length_flag_anomalies: "length (flag_anomalies cfg rs) = length rs"
  by (simp add: flag_anomalies_def)

lemma nth_flag_anomalies:
  "i < length rs \<Longrightarrow>
   flag_anomalies cfg rs ! i =
     (fgt (Fin (rs ! i)) (upper_threshold cfg rs) \<or> flt (Fin (rs ! i)) (lower_threshold cfg rs))"
  by (simp add: flag_anomalies_def)

lemma residual_mean_Fin:
  "rs \<noteq> [] \<Longrightarrow> residual_mean rs = Fin (sum_list rs / real (length rs))"
  by (simp add: residual_mean_def series_mean_def)

lemma sq_dev_nonneg: "0 \<le> sq_dev rs"
  unfolding sq_dev_def by (rule sum_list_nonneg) auto

lemma residual_std_Fin:
  "2 \<le> length rs \<Longrightarrow>
   residual_std rs = Fin (sqrt (sq_dev rs / real (length rs - 1)))"
  using sq_dev_nonneg [of rs]
  by (simp add: residual_std_def series_std_def series_var_def sq_dev_def Let_def not_less)

lemma residual_std_NaN: "length rs < 2 \<Longrightarrow> residual_std rs = NaN"
  by (simp add: residual_std_def series_std_def series_var_def Let_def)

lemma residual_std_cases:
  obtains (nan) "length rs < 2" "residual_std rs = NaN"
  | (fin) s where "2 \<le> length rs" "residual_std rs = Fin s" "0 \<le> s"
      "residual_mean rs = Fin (sum_list rs / real (length rs))"
proof (cases "length rs < 2")
  case True
  then show ?thesis using nan residual_std_NaN by blast
next
  case False
  then have n: "2 \<le> length rs" by simp
  then have ne: "rs \<noteq> []" by auto
  have "0 \<le> sq_dev rs / real (length rs - 1)"
    using sq_dev_nonneg [of rs] by simp
  then have "0 \<le> sqrt (sq_dev rs / real (length rs - 1))" by simp
  then show ?thesis
    using fin n residual_std_Fin [OF n] residual_mean_Fin [OF ne] by blast
qed

lemma boundary_not_flagged:
  assumes k: "0 \<le> anomaly_threshold cfg"
    and b: "Fin r = upper_threshold cfg rs \<or> Fin r = lower_threshold cfg rs"
  shows "\<not> (fgt (Fin r) (upper_threshold cfg rs) \<or> flt (Fin r) (lower_threshold cfg rs))"
proof (cases rs rule: residual_std_cases)
  case nan
  then show ?thesis by (simp add: upper_threshold_def lower_threshold_def)
next
  case (fin s)
  have "0 \<le> anomaly_threshold cfg * s" using k fin(3) by simp
  with b fin show ?thesis
    by (auto simp: upper_threshold_def lower_threshold_def)
qed

lemma sum_list_eq_spec_mean: "sum_list rs / real (length rs) = spec_mean rs"
  by (simp add: spec_mean_def sum_list_sum_nth)

lemma sq_dev_eq_spec: "sq_dev rs = (\<Sum>i = 0..<length rs. (rs ! i - spec_mean rs)\<^sup>2)"
proof -
  have "sq_dev rs = (\<Sum>x\<leftarrow>rs. (x - spec_mean rs)\<^sup>2)"
    by (simp add: sq_dev_def sum_list_eq_spec_mean power2_commute)
  also have "\<dots> = (\<Sum>i = 0..<length rs. (rs ! i - spec_mean rs)\<^sup>2)"
    by (simp add: sum_list_sum_nth)
  finally show ?thesis .
qed

lemma residual_std_spec:
  assumes "2 \<le> length rs"
  shows "residual_std rs = Fin (spec_sample_std rs)"
proof -
  have "real (length rs - 1) = real (length rs) - 1" using assms by (simp add: of_nat_diff)
  then show ?thesis
    by (simp add: residual_std_Fin [OF assms] spec_sample_std_def sq_dev_eq_spec)
qed

lemma sq_dev_0004: "sq_dev [0, 0, 0, 4] = 12"
  by (simp add: sq_dev_def power2_eq_square)

lemma std_0004: "residual_std [0, 0, 0, 4] = Fin 2"
proof -
  have "sqrt (12 / 3) = sqrt ((2::real)\<^sup>2)" by simp
  then have "sqrt (12 / 3) = (2::real)" by (simp del: real_sqrt_four)
  then show ?thesis
    using residual_std_Fin [of "[0, 0, 0, 4]"] by (simp add: sq_dev_0004)
qed

lemma scenario_residuals:
  "residuals [10, 10, 10, 10, 100] [10, 10, 10, 10, 10] = [0, 0, 0, 0, 90]"
  by (simp add: residuals_def)

lemma scenario_mean: "residual_mean [0, 0, 0, 0, 90] = Fin 18"
  by (simp add: residual_mean_def series_mean_def)

lemma scenario_std: "residual_std [0, 0, 0, 0, 90] = Fin (sqrt 1620)"
proof -
  have "sq_dev [0, 0, 0, 0, 90] = 6480"
    by (simp add: sq_dev_def power2_eq_square)
  then show ?thesis
    using residual_std_Fin [of "[0, 0, 0, 0, 90]"] by simp
qed

lemma sqrt_1620_lower: "40 \<le> sqrt 1620"
  by (rule real_le_rsqrt) simp

lemma scenario_upper: "upper_threshold CONFIG [0, 0, 0, 0, 90] = Fin (18 + 5 / 2 * sqrt 1620)"
  by (simp add: upper_threshold_def scenario_mean scenario_std CONFIG_def)

lemma scenario_lower: "lower_threshold CONFIG [0, 0, 0, 0, 90] = Fin (18 - 5 / 2 * sqrt 1620)"
  by (simp add: lower_threshold_def scenario_mean scenario_std CONFIG_def)

lemma scenario_flags: "flag_anomalies CONFIG [0, 0, 0, 0, 90] = [False, False, False, False, False]"
  using sqrt_1620_lower
  by (simp add: flag_anomalies_def scenario_upper scenario_lower)

lemma const_std_zero:
  assumes n: "2 \<le> length rs" and c: "\<forall>r\<in>set rs. r = c"
  shows "residual_std rs = Fin 0" and "residual_mean rs = Fin c"
proof -
  have rs: "rs = replicate (length rs) c"
    using c by (simp add: replicate_length_same)
  have s: "sum_list rs = real (length rs) * c"
    by (subst rs) (simp add: sum_list_replicate)
  from n have ne: "rs \<noteq> []" by auto
  have m: "sum_list rs / real (length rs) = c"
    using ne s by simp
  have "sq_dev rs = (\<Sum>x\<leftarrow>rs. (c - x)\<^sup>2)"
    by (simp add: sq_dev_def m)
  also have "\<dots> = (\<Sum>x\<leftarrow>rs. 0)"
    using c by (intro arg_cong [where f = sum_list] map_cong) auto
  finally have "sq_dev rs = 0" by simp
  then show "residual_std rs = Fin 0"
    using residual_std_Fin [OF n] by simp
  from ne show "residual_mean rs = Fin c"
    using residual_mean_Fin [of rs] m by simp
qed

lemma zeros_not_flagged: "flag_anomalies cfg (replicate n 0) = replicate n False"
proof (cases "2 \<le> n")
  case True
  then have "residual_std (replicate n 0) = Fin 0" "residual_mean (replicate n 0) = Fin 0"
    using const_std_zero [of "replicate n 0" 0] by auto
  then show ?thesis
    by (simp add: flag_anomalies_def upper_threshold_def lower_threshold_def map_replicate_const)
next
  case False
  then have "residual_std (replicate n 0) = NaN"
    using residual_std_NaN [of "replicate n 0"] by simp
  then show ?thesis
    by (simp add: flag_anomalies_def upper_threshold_def lower_threshold_def map_replicate_const)
qed

subsection \<open>Classification rule\<close>

text \<open>
  C1. For observed and predicted columns of equal length and every index \<open>i\<close>, the
  residual at \<open>i\<close> is observed minus predicted, and the flag at \<open>i\<close> is true exactly when
  the residual is strictly above the upper threshold or strictly below the lower one, both
  thresholds being those of the whole residual column. With a non-negative multiplier (the
  configured one is 2.5) a residual that equals a threshold is not flagged.
\<close>

theorem anomaly_flag_rule:
  assumes "length obs = length pred" and "i < length obs"
  shows "residuals obs pred ! i = obs ! i - pred ! i \<and>
     flag_anomalies cfg (residuals obs pred) ! i =
       (fgt (Fin (residuals obs pred ! i)) (upper_threshold cfg (residuals obs pred)) \<or>
        flt (Fin (residuals obs pred ! i)) (lower_threshold cfg (residuals obs pred))) \<and>
     (0 \<le> anomaly_threshold cfg \<longrightarrow>
      (Fin (residuals obs pred ! i) = upper_threshold cfg (residuals obs pred) \<or>
       Fin (residuals obs pred ! i) = lower_threshold cfg (residuals obs pred)) \<longrightarrow>
      \<not> flag_anomalies cfg (residuals obs pred) ! i)"
proof -
  have i: "i < length (residuals obs pred)"
    using assms by (simp add: length_residuals)
  show ?thesis
    using nth_residuals [OF assms] nth_flag_anomalies [OF i, of cfg]
      boundary_not_flagged [of cfg "residuals obs pred ! i" "residuals obs pred"]
    by blast
qed

theorem anomaly_flag_rule_witness:
  "length [0, 0, 0, 4::real] = length [0, 0, 0, 0::real] \<and> (3::nat) < length [0, 0, 0, 4::real] \<and>
   0 \<le> anomaly_threshold (CONFIG\<lparr>anomaly_threshold := 3 / 2\<rparr>) \<and>
   residuals [0, 0, 0, 4] [0, 0, 0, 0] ! 3 = 4 \<and>
   upper_threshold (CONFIG\<lparr>anomaly_threshold := 3 / 2\<rparr>) (residuals [0, 0, 0, 4] [0, 0, 0, 0]) = Fin 4 \<and>
   \<not> flag_anomalies (CONFIG\<lparr>anomaly_threshold := 3 / 2\<rparr>) (residuals [0, 0, 0, 4] [0, 0, 0, 0]) ! 3"
proof -
  have r: "residuals [0, 0, 0, 4] [0, 0, 0, 0] = [0, 0, 0, 4]"
    by (simp add: residuals_def)
  have u: "upper_threshold (CONFIG\<lparr>anomaly_threshold := 3 / 2\<rparr>) [0, 0, 0, 4] = Fin 4"
    by (simp add: upper_threshold_def std_0004 residual_mean_def series_mean_def)
  have l: "lower_threshold (CONFIG\<lparr>anomaly_threshold := 3 / 2\<rparr>) [0, 0, 0, 4] = Fin (- 2)"
    by (simp add: lower_threshold_def std_0004 residual_mean_def series_mean_def)
  show ?thesis
    using anomaly_flag_rule [of "[0, 0, 0, 4]" "[0, 0, 0, 0]" 3 "CONFIG\<lparr>anomaly_threshold := 3 / 2\<rparr>"]
    by (simp add: r u l)
qed

subsection \<open>Threshold bounds\<close>

text \<open>
  C2. The upper threshold is the residual mean plus \<open>k\<close> times the residual standard
  deviation and the lower threshold is the mean minus the same product, where \<open>k\<close> is the
  configured multiplier, 2.5 in \<^const>\<open>CONFIG\<close>. The mean is the specification's mean of
  all residuals of a non-empty run, and for at least two residuals the deviation is the
  specification's sample standard deviation of all of them: one statistic for the whole run.
\<close>

theorem threshold_bounds_formula:
  "upper_threshold cfg rs =
     fadd (residual_mean rs) (fmul (Fin (anomaly_threshold cfg)) (residual_std rs)) \<and>
   lower_threshold cfg rs =
     fsub (residual_mean rs) (fmul (Fin (anomaly_threshold cfg)) (residual_std rs)) \<and>
   anomaly_threshold CONFIG = 2.5 \<and>
   (rs \<noteq> [] \<longrightarrow> residual_mean rs = Fin (spec_mean rs)) \<and>
   (2 \<le> length rs \<longrightarrow>
      residual_std rs = Fin (spec_sample_std rs) \<and>
      upper_threshold cfg rs = Fin (spec_mean rs + anomaly_threshold cfg * spec_sample_std rs) \<and>
      lower_threshold cfg rs = Fin (spec_mean rs - anomaly_threshold cfg * spec_sample_std rs))"
proof -
  have m: "residual_mean rs = Fin (spec_mean rs)" if "rs \<noteq> []"
    using residual_mean_Fin [OF that] by (simp add: sum_list_eq_spec_mean)
  have b: "residual_std rs = Fin (spec_sample_std rs) \<and>
      upper_threshold cfg rs = Fin (spec_mean rs + anomaly_threshold cfg * spec_sample_std rs) \<and>
      lower_threshold cfg rs = Fin (spec_mean rs - anomaly_threshold cfg * spec_sample_std rs)"
    if n: "2 \<le> length rs"
  proof -
    from n have "rs \<noteq> []" by auto
    then show ?thesis
      by (simp add: upper_threshold_def lower_threshold_def m residual_std_spec [OF n])
  qed
  have u: "upper_threshold cfg rs =
     fadd (residual_mean rs) (fmul (Fin (anomaly_threshold cfg)) (residual_std rs))"
    by (simp add: upper_threshold_def)
  have l: "lower_threshold cfg rs =
     fsub (residual_mean rs) (fmul (Fin (anomaly_threshold cfg)) (residual_std rs))"
    by (simp add: lower_threshold_def)
  have k: "anomaly_threshold CONFIG = 2.5"
    by (simp add: CONFIG_def)
  from u l k m b show ?thesis by blast
qed

theorem threshold_bounds_formula_witness:
  "[0, 0, 0, 4] \<noteq> ([]::real list) \<and> 2 \<le> length [0, 0, 0, 4::real] \<and>
   residual_mean [0, 0, 0, 4] = Fin 1 \<and>
   spec_mean [0, 0, 0, 4] = 1 \<and>
   residual_std [0, 0, 0, 4] = Fin (spec_sample_std [0, 0, 0, 4]) \<and>
   upper_threshold CONFIG [0, 0, 0, 4] = Fin (1 + 2.5 * spec_sample_std [0, 0, 0, 4]) \<and>
   lower_threshold CONFIG [0, 0, 0, 4] = Fin (1 - 2.5 * spec_sample_std [0, 0, 0, 4])"
proof -
  have mu: "spec_mean [0, 0, 0, 4] = 1"
    by (simp add: spec_mean_def upt_rec numeral_nat)
  show ?thesis
    using threshold_bounds_formula [of CONFIG "[0, 0, 0, 4]"] mu
    by (simp add: CONFIG_def)
qed

subsection \<open>The five-point scenario\<close>

text \<open>
  C4 expects index 4 of observed \<open>[10,10,10,10,100]\<close> against predicted
  \<open>[10,10,10,10,10]\<close> to be flagged. The code does not flag it.
\<close>

theorem scenario_index4_counterexample:
  "\<not> flag_anomalies CONFIG (residuals [10, 10, 10, 10, 100] [10, 10, 10, 10, 10]) ! 4"
  by (simp add: scenario_residuals scenario_flags)

text \<open>
  C4, amended. The residuals are \<open>[0,0,0,0,90]\<close> with mean 18 and sample standard deviation
  \<open>sqrt 1620\<close> (about 40.25); the upper threshold \<open>18 + 2.5 * sqrt 1620\<close> lies above 90, and no
  index is flagged.
\<close>

theorem scenario_no_flag:
  "residuals [10, 10, 10, 10, 100] [10, 10, 10, 10, 10] = [0, 0, 0, 0, 90] \<and>
   residual_mean [0, 0, 0, 0, 90] = Fin 18 \<and>
   residual_std [0, 0, 0, 0, 90] = Fin (sqrt 1620) \<and>
   upper_threshold CONFIG [0, 0, 0, 0, 90] = Fin (18 + 5 / 2 * sqrt 1620) \<and>
   \<not> fgt (Fin 90) (upper_threshold CONFIG [0, 0, 0, 0, 90]) \<and>
   flag_anomalies CONFIG (residuals [10, 10, 10, 10, 100] [10, 10, 10, 10, 10]) =
     [False, False, False, False, False]"
  using sqrt_1620_lower
  by (simp add: scenario_residuals scenario_flags scenario_mean scenario_std scenario_upper)

subsection \<open>A single residual\<close>

text \<open>
  C10. For a population of exactly one residual the mean is that residual, the sample
  standard deviation and both thresholds are \<^verbatim>\<open>nan\<close>, and the point is not flagged.
\<close>

theorem single_residual_nan:
  "residual_mean [r] = Fin r \<and>
   residual_std [r] = NaN \<and>
   upper_threshold cfg [r] = NaN \<and>
   lower_threshold cfg [r] = NaN \<and>
   flag_anomalies cfg [r] = [False]"
  by (simp add: residual_mean_def series_mean_def residual_std_def series_std_def series_var_def
      upper_threshold_def lower_threshold_def flag_anomalies_def)

section \<open>Properties of the generator\<close>

lemma length_normal_n: "length (fst (normal_n R loc scale n g)) = n"
  by (induction n arbitrary: g) (simp_all add: split_beta Let_def)

lemma inject_anomalies_length:
  "inject_anomalies R idxs cpu g = Inr (cpu1, g1) \<Longrightarrow> length cpu1 = length cpu"
proof (induction idxs arbitrary: cpu g)
  case Nil
  then show ?case by simp
next
  case (Cons idx rest)
  then show ?case
    by (fastforce simp: split_beta Let_def split: if_splits)
qed

lemma inject_anomalies_in_range:
  "\<forall>i\<in>set idxs. i < length cpu \<Longrightarrow> \<exists>cpu1 g1. inject_anomalies R idxs cpu g = Inr (cpu1, g1)"
proof (induction idxs arbitrary: cpu g)
  case Nil
  then show ?case by simp
next
  case (Cons idx rest)
  then show ?case by (simp add: split_beta Let_def)
qed

lemma inject_anomalies_out_of_range:
  "\<exists>i\<in>set idxs. length cpu \<le> i \<Longrightarrow> inject_anomalies R idxs cpu g = Inl IndexError"
proof (induction idxs arbitrary: cpu g)
  case Nil
  then show ?case by simp
next
  case (Cons idx rest)
  show ?case
  proof (cases "idx < length cpu")
    case True
    with Cons.prems have "\<exists>i\<in>set rest. length (cpu[idx := cpu ! idx + c]) \<le> i" for c
      by auto
    from Cons.IH [OF this] True show ?thesis
      by (simp add: split_beta Let_def)
  next
    case False
    then show ?thesis by simp
  qed
qed

lemma clip_range: "0 \<le> clip x 0 100 \<and> clip x 0 100 \<le> 100"
  by (simp add: clip_def)

lemma length_base_usage: "length (base_usage R cfg) = days cfg * hours_per_day cfg"
  by (simp add: base_usage_def Let_def length_normal_n)

lemma generate_unfold:
  "generate_synthetic_data R cfg w =
     (case inject_anomalies R anomalies_indices (base_usage R cfg)
             (snd (normal_n R 0 2 (days cfg * hours_per_day cfg) (seed R 42))) of
        Inl e \<Rightarrow> Inl e
      | Inr (spiked, g2) \<Rightarrow>
          (let df = map2 (\<lambda>d c. \<lparr> timestamp = d, cpu_percent = c \<rparr>)
                      [0..<days cfg * hours_per_day cfg] (map (\<lambda>x. clip x 0 100) spiked)
           in Inr (df, \<lparr> rng_state = g2, disk = (disk w)(data_path cfg \<mapsto> DataCsv df) \<rparr>)))"
  by (simp add: generate_synthetic_data_def base_usage_def Let_def split_beta
      split: sum.splits)

lemma generate_Inr_frame:
  assumes "generate_synthetic_data R cfg w = Inr (df, w1)"
  shows "length df = days cfg * hours_per_day cfg"
    and "map timestamp df = [0..<days cfg * hours_per_day cfg]"
    and "\<forall>r\<in>set df. 0 \<le> cpu_percent r \<and> cpu_percent r \<le> 100"
proof -
  from assms obtain spiked g2 where
    inj: "inject_anomalies R anomalies_indices (base_usage R cfg)
            (snd (normal_n R 0 2 (days cfg * hours_per_day cfg) (seed R 42))) = Inr (spiked, g2)"
    and df: "df = map2 (\<lambda>d c. \<lparr> timestamp = d, cpu_percent = c \<rparr>)
                      [0..<days cfg * hours_per_day cfg] (map (\<lambda>x. clip x 0 100) spiked)"
    by (auto simp: generate_unfold Let_def split: sum.splits)
  have len: "length spiked = days cfg * hours_per_day cfg"
    using inject_anomalies_length [OF inj] by (simp add: length_base_usage)
  show "length df = days cfg * hours_per_day cfg"
    by (simp add: df len)
  show "map timestamp df = [0..<days cfg * hours_per_day cfg]"
    by (rule nth_equalityI) (simp_all add: df len)
  show "\<forall>r\<in>set df. 0 \<le> cpu_percent r \<and> cpu_percent r \<le> 100"
    using clip_range by (auto simp: df set_zip)
qed

lemma generate_succeeds:
  assumes "680 < days cfg * hours_per_day cfg"
  shows "\<exists>df w1. generate_synthetic_data R cfg w = Inr (df, w1)"
proof -
  have "\<forall>i\<in>set anomalies_indices. i < length (base_usage R cfg)"
    using assms by (simp add: anomalies_indices_def length_base_usage)
  from inject_anomalies_in_range [OF this, of R
      "snd (normal_n R 0 2 (days cfg * hours_per_day cfg) (seed R 42))"]
  obtain spiked g2 where
    "inject_anomalies R anomalies_indices (base_usage R cfg)
       (snd (normal_n R 0 2 (days cfg * hours_per_day cfg) (seed R 42))) = Inr (spiked, g2)"
    by blast
  then show ?thesis
    by (simp add: generate_unfold Let_def)
qed

lemma generate_fails:
  assumes "days cfg * hours_per_day cfg \<le> 680"
  shows "generate_synthetic_data R cfg w = Inl IndexError"
proof -
  have "\<exists>i\<in>set anomalies_indices. length (base_usage R cfg) \<le> i"
    using assms by (simp add: anomalies_indices_def length_base_usage)
  from inject_anomalies_out_of_range [OF this, of R
      "snd (normal_n R 0 2 (days cfg * hours_per_day cfg) (seed R 42))"]
  show ?thesis
    by (simp add: generate_unfold)
qed

subsection \<open>Shape of the generated series\<close>

text \<open>
  C7. A frame returned by the generator has exactly \<open>days * hours_per_day\<close> rows and every
  \<^verbatim>\<open>cpu_percent\<close> in it lies between 0 and 100. The generator does return a frame whenever
  the last injection index 680 is inside the series, in particular for \<^const>\<open>CONFIG\<close>, whose
  series has 720 rows.
\<close>

theorem generated_series_shape:
  "(generate_synthetic_data R cfg w = Inr (df, w1) \<longrightarrow>
      length df = days cfg * hours_per_day cfg \<and>
      (\<forall>r\<in>set df. 0 \<le> cpu_percent r \<and> cpu_percent r \<le> 100)) \<and>
   (680 < days cfg * hours_per_day cfg \<longrightarrow>
      (\<exists>df1 w2. generate_synthetic_data R cfg w = Inr (df1, w2))) \<and>
   (\<exists>df1 w2. generate_synthetic_data R CONFIG w = Inr (df1, w2) \<and> length df1 = 720)"
proof (intro conjI impI)
  assume g: "generate_synthetic_data R cfg w = Inr (df, w1)"
  show "length df = days cfg * hours_per_day cfg"
    by (rule generate_Inr_frame(1) [OF g])
  show "\<forall>r\<in>set df. 0 \<le> cpu_percent r \<and> cpu_percent r \<le> 100"
    by (rule generate_Inr_frame(3) [OF g])
next
  assume "680 < days cfg * hours_per_day cfg"
  then show "\<exists>df1 w2. generate_synthetic_data R cfg w = Inr (df1, w2)"
    by (rule generate_succeeds)
next
  have "680 < days CONFIG * hours_per_day CONFIG" by (simp add: CONFIG_def)
  from generate_succeeds [OF this, of R w] obtain df1 w2
    where g: "generate_synthetic_data R CONFIG w = Inr (df1, w2)" by blast
  from generate_Inr_frame(1) [OF g] have "length df1 = 720" by (simp add: CONFIG_def)
  with g show "\<exists>df1 w2. generate_synthetic_data R CONFIG w = Inr (df1, w2) \<and> length df1 = 720"
    by blast
qed

theorem generated_series_shape_witness:
  "680 < days CONFIG * hours_per_day CONFIG \<and>
   (\<exists>df w1. generate_synthetic_data rng_example CONFIG world_example = Inr (df, w1) \<and>
       length df = days CONFIG * hours_per_day CONFIG \<and>
       list_all (\<lambda>r. 0 \<le> cpu_percent r \<and> cpu_percent r \<le> 100) df)"
proof -
  have h: "680 < days CONFIG * hours_per_day CONFIG" by (simp add: CONFIG_def)
  from generate_succeeds [OF h, of rng_example world_example] obtain df w1
    where g: "generate_synthetic_data rng_example CONFIG world_example = Inr (df, w1)" by blast
  from generated_series_shape [of rng_example CONFIG world_example df w1] g
  have "length df = days CONFIG * hours_per_day CONFIG \<and>
        list_all (\<lambda>r. 0 \<le> cpu_percent r \<and> cpu_percent r \<le> 100) df"
    by (simp add: list_all_iff)
  with h g show ?thesis by blast
qed

subsection \<open>Reproducible generation\<close>

text \<open>
  C8. The generator reseeds the random source with 42 before it draws, so two runs with the
  same configuration return the same frame (or both fail), whatever the earlier state of the
  random source and of the disk: the noise, the magnitudes chosen at the injection indices,
  the data file written and the random state left behind all coincide.
\<close>

theorem generator_deterministic:
  "map_sum id fst (generate_synthetic_data R cfg w) =
     map_sum id fst (generate_synthetic_data R cfg w') \<and>
   map_sum id (\<lambda>(df, w1). (rng_state w1, disk w1 (data_path cfg))) (generate_synthetic_data R cfg w) =
     map_sum id (\<lambda>(df, w1). (rng_state w1, disk w1 (data_path cfg))) (generate_synthetic_data R cfg w')"
  by (simp add: generate_unfold Let_def split: sum.splits prod.splits)

section \<open>Properties of the annotated frame\<close>

lemma length_annotate:
  "length pred = length df \<Longrightarrow> length (annotate cfg df pred) = length df"
  by (simp add: annotate_def Let_def residuals_def flag_anomalies_def)

lemma nth_annotate:
  assumes "length pred = length df" and "i < length df"
  shows "annotate cfg df pred ! i =
     \<lparr> timestamp = timestamp (df ! i), cpu_percent = cpu_percent (df ! i),
       predicted = pred ! i,
       residual = residuals (map cpu_percent df) pred ! i,
       is_anomaly = flag_anomalies cfg (residuals (map cpu_percent df) pred) ! i \<rparr>"
  using assms by (simp add: annotate_def Let_def residuals_def flag_anomalies_def)

lemma annotate_columns:
  assumes "length pred = length df"
  shows "map timestamp (annotate cfg df pred) = map timestamp df"
    and "map cpu_percent (annotate cfg df pred) = map cpu_percent df"
    and "map predicted (annotate cfg df pred) = pred"
    and "map residual (annotate cfg df pred) = residuals (map cpu_percent df) pred"
    and "map is_anomaly (annotate cfg df pred) = flag_anomalies cfg (residuals (map cpu_percent df) pred)"
  using assms
  by (auto intro!: nth_equalityI simp: length_annotate nth_annotate length_residuals
      length_flag_anomalies)

lemma annotate_cong:
  assumes "length pred = length df" and "map timestamp df' = map timestamp df"
    and "map cpu_percent df' = map cpu_percent df"
  shows "annotate cfg df' pred = annotate cfg df pred"
proof (rule nth_equalityI)
  have l: "length df' = length df"
    using assms(2) by (metis length_map)
  then show "length (annotate cfg df' pred) = length (annotate cfg df pred)"
    using assms(1) by (simp add: length_annotate)
  fix i assume "i < length (annotate cfg df' pred)"
  then have i: "i < length df" using l assms(1) by (simp add: length_annotate)
  have "timestamp (df' ! i) = timestamp (df ! i)"
    using assms(2) i l by (metis nth_map)
  moreover have "cpu_percent (df' ! i) = cpu_percent (df ! i)"
    using assms(3) i l by (metis nth_map)
  ultimately show "annotate cfg df' pred ! i = annotate cfg df pred ! i"
    using assms i l by (simp add: nth_annotate)
qed

lemma train_and_detect_Inr:
  assumes "train_and_detect A cfg df = Inr (df1, m)"
  shows "fit A (map cpu_percent df) (arima_order cfg) = Inr m"
    and "df1 = annotate cfg df (map (predict_at A m) [0..<length df])"
  using assms by (auto simp: train_and_detect_def Let_def split: sum.splits)

lemma filter_length_sum: "length (filter P xs) = (\<Sum>x\<leftarrow>xs. if P x then 1 else 0)"
  by (induction xs) simp_all

lemma sorted_wrt_map_filter:
  "sorted_wrt (<) (map f xs) \<Longrightarrow> sorted_wrt (<) (map f (filter P xs))"
  by (induction xs) auto

lemma main_Inr:
  assumes "main R A cfg w = Inr w2"
  obtains data w1 results model where
    "generate_synthetic_data R cfg w = Inr (data, w1)"
    "train_and_detect A cfg data = Inr (results, model)"
    "disk w2 = save_report cfg results (visualize_results cfg results (disk w1))"
  using assms by (auto simp: main_def split: sum.splits prod.splits)

lemma train_frame_example: "train_and_detect arima_example CONFIG frame_example = Inr (frame_example_annotated, ())"
proof -
  have "flag_anomalies CONFIG [0, 0] = [False, False]"
    using zeros_not_flagged [of CONFIG 2] by (simp add: numeral_2_eq_2)
  then show ?thesis
    by (simp add: train_and_detect_def arima_example_def frame_example_def frame_example_annotated_def annotate_def Let_def
        residuals_def upt_rec numeral_nat)
qed

lemma main_example_succeeds: "\<exists>w2. main rng_example arima_example CONFIG world_example = Inr w2"
proof -
  have h: "680 < days CONFIG * hours_per_day CONFIG" by (simp add: CONFIG_def)
  from generate_succeeds [OF h, of rng_example world_example] obtain data w1
    where g: "generate_synthetic_data rng_example CONFIG world_example = Inr (data, w1)" by blast
  have "length data = 720"
    using generate_Inr_frame(1) [OF g] by (simp add: CONFIG_def)
  then have "\<exists>results. train_and_detect arima_example CONFIG data = Inr (results, ())"
    by (simp add: train_and_detect_def arima_example_def Let_def)
  then show ?thesis
    using g by (auto simp: main_def)
qed

subsection \<open>Repeated analysis\<close>

text \<open>
  C6. \<^verbatim>\<open>train_and_detect\<close> writes its columns into the frame it is given. Run again on that
  frame, it returns the same frame and model: the flags, residuals and predictions of the
  second run are those of the first, and so are both thresholds.
\<close>

theorem rerun_identical:
  assumes "train_and_detect A cfg df = Inr (df1, m)"
  shows "train_and_detect A cfg df1 = Inr (df1, m) \<and>
     map is_anomaly df1 = flag_anomalies cfg (map residual df1) \<and>
     residuals (map cpu_percent df1) (map (predict_at A m) [0..<length df1]) = map residual df1 \<and>
     upper_threshold cfg (residuals (map cpu_percent df1) (map (predict_at A m) [0..<length df1])) =
       upper_threshold cfg (residuals (map cpu_percent df) (map (predict_at A m) [0..<length df])) \<and>
     lower_threshold cfg (residuals (map cpu_percent df1) (map (predict_at A m) [0..<length df1])) =
       lower_threshold cfg (residuals (map cpu_percent df) (map (predict_at A m) [0..<length df]))"
proof -
  let ?pred = "map (predict_at A m) [0..<length df]"
  have f: "fit A (map cpu_percent df) (arima_order cfg) = Inr m"
    and df1: "df1 = annotate cfg df ?pred"
    using train_and_detect_Inr [OF assms] by auto
  have p: "length ?pred = length df" by simp
  have len: "length df1 = length df"
    by (simp add: df1 length_annotate)
  have ts: "map timestamp df1 = map timestamp df"
    and cpu: "map cpu_percent df1 = map cpu_percent df"
    and res: "map residual df1 = residuals (map cpu_percent df) ?pred"
    and fl: "map is_anomaly df1 = flag_anomalies cfg (residuals (map cpu_percent df) ?pred)"
    using annotate_columns [OF p, of cfg] by (simp_all add: df1)
  have "annotate cfg df1 ?pred = annotate cfg df ?pred"
    by (rule annotate_cong [OF p ts cpu])
  then have "train_and_detect A cfg df1 = Inr (df1, m)"
    by (simp add: train_and_detect_def Let_def cpu f len df1 [symmetric])
  then show ?thesis
    by (simp add: len cpu res fl)
qed

theorem rerun_identical_witness:
  "train_and_detect arima_example CONFIG frame_example = Inr (frame_example_annotated, ()) \<and>
   train_and_detect arima_example CONFIG frame_example_annotated = Inr (frame_example_annotated, ()) \<and>
   map is_anomaly frame_example_annotated = flag_anomalies CONFIG (map residual frame_example_annotated)"
  using rerun_identical [OF train_frame_example] train_frame_example by simp

subsection \<open>Anomaly report\<close>

text \<open>
  C9. The report file holds exactly the rows of the frame whose flag is true: their number
  is the sum of the flag column, each is a row of the frame with all five fields, and they
  keep the frame's order, hence ascending timestamps when the frame's timestamps ascend.
  Writing the report after the plot gives the same report. In a completed pipeline run the
  report's timestamps are strictly ascending.
\<close>

theorem report_rows:
  "(\<exists>rep. save_report cfg df fs (report_path cfg) = Some (ReportCsv rep) \<and>
          save_report cfg df (visualize_results cfg df fs) (report_path cfg) = Some (ReportCsv rep) \<and>
          length rep = anomaly_count (map is_anomaly df) \<and>
          (\<forall>r. r \<in> set rep \<longleftrightarrow> r \<in> set df \<and> is_anomaly r) \<and>
          subseq rep df \<and>
          (sorted_wrt (<) (map timestamp df) \<longrightarrow> sorted_wrt (<) (map timestamp rep))) \<and>
   (main R A cfg w = Inr w2 \<longrightarrow>
      (\<exists>rep. disk w2 (report_path cfg) = Some (ReportCsv rep) \<and>
             sorted_wrt (<) (map timestamp rep)))"
proof (intro conjI impI)
  let ?rep = "filter is_anomaly df"
  have "length ?rep = anomaly_count (map is_anomaly df)"
    by (simp add: anomaly_count_def filter_length_sum comp_def)
  moreover have "sorted_wrt (<) (map timestamp df) \<longrightarrow> sorted_wrt (<) (map timestamp ?rep)"
    by (simp add: sorted_wrt_map_filter)
  ultimately
  show "\<exists>rep. save_report cfg df fs (report_path cfg) = Some (ReportCsv rep) \<and>
          save_report cfg df (visualize_results cfg df fs) (report_path cfg) = Some (ReportCsv rep) \<and>
          length rep = anomaly_count (map is_anomaly df) \<and>
          (\<forall>r. r \<in> set rep \<longleftrightarrow> r \<in> set df \<and> is_anomaly r) \<and>
          subseq rep df \<and>
          (sorted_wrt (<) (map timestamp df) \<longrightarrow> sorted_wrt (<) (map timestamp rep))"
    by (intro exI [of _ ?rep]) (simp add: save_report_def Let_def)
next
  assume "main R A cfg w = Inr w2"
  then obtain data w1 results model where
    g: "generate_synthetic_data R cfg w = Inr (data, w1)" and
    t: "train_and_detect A cfg data = Inr (results, model)" and
    d: "disk w2 = save_report cfg results (visualize_results cfg results (disk w1))"
    by (rule main_Inr)
  have "results = annotate cfg data (map (predict_at A model) [0..<length data])"
    using train_and_detect_Inr(2) [OF t] .
  then have "map timestamp results = map timestamp data"
    by (simp add: annotate_columns(1))
  then have "sorted_wrt (<) (map timestamp results)"
    by (simp add: generate_Inr_frame(2) [OF g])
  then have "sorted_wrt (<) (map timestamp (filter is_anomaly results))"
    by (rule sorted_wrt_map_filter)
  then show "\<exists>rep. disk w2 (report_path cfg) = Some (ReportCsv rep) \<and>
             sorted_wrt (<) (map timestamp rep)"
    by (simp add: d save_report_def Let_def)
qed

theorem report_rows_witness:
  "sorted_wrt (<) (map timestamp frame_flagged) \<and>
   save_report CONFIG frame_flagged (disk world_example) (report_path CONFIG) =
     Some (ReportCsv [frame_flagged ! 1]) \<and>
   save_report CONFIG frame_flagged (visualize_results CONFIG frame_flagged (disk world_example)) (report_path CONFIG) =
     Some (ReportCsv [frame_flagged ! 1]) \<and>
   anomaly_count (map is_anomaly frame_flagged) = 1 \<and>
   (\<exists>w2 rep. main rng_example arima_example CONFIG world_example = Inr w2 \<and>
       disk w2 (report_path CONFIG) = Some (ReportCsv rep) \<and>
       sorted_wrt (<) (map timestamp rep))"
proof -
  obtain w2 where m: "main rng_example arima_example CONFIG world_example = Inr w2"
    using main_example_succeeds by blast
  have s: "sorted_wrt (<) (map timestamp frame_flagged)"
    by (simp add: frame_flagged_def)
  have r: "save_report CONFIG frame_flagged (disk world_example) (report_path CONFIG) =
     Some (ReportCsv [frame_flagged ! 1])"
    by (simp add: save_report_def frame_flagged_def)
  have c: "anomaly_count (map is_anomaly frame_flagged) = 1"
    by (simp add: anomaly_count_def frame_flagged_def)
  from report_rows [of CONFIG frame_flagged "disk world_example" rng_example arima_example world_example w2] m s r c
  show ?thesis by auto
qed

section \<open>Properties of binary64 rounding\<close>


lemma round_even_of_int [simp]: "round_even (of_int k) = k"
  by (simp add: round_even_def)



lemma powi_eq_powr: "(2::real) powi e = 2 powr real_of_int e"
  by (simp add: powr_real_of_int')

lemma floor_log2_eq:
  assumes "2 powi e \<le> \<bar>x\<bar>" and "\<bar>x\<bar> < 2 powi (e + 1)"
  shows "\<lfloor>log 2 \<bar>x\<bar>\<rfloor> = e"
proof -
  have "0 < \<bar>x\<bar>" using assms(1) zero_less_power_int [of "2::real" e] by linarith
  then show ?thesis
    using assms by (simp add: floor_log_eq_powr_iff powi_eq_powr)
qed

lemma binade:
  assumes "x \<noteq> 0"
  shows "2 powi \<lfloor>log 2 \<bar>x\<bar>\<rfloor> \<le> \<bar>x\<bar>" and "\<bar>x\<bar> < 2 powi (\<lfloor>log 2 \<bar>x\<bar>\<rfloor> + 1)"
proof -
  have "0 < \<bar>x\<bar>" using assms by simp
  then have "2 powr real_of_int \<lfloor>log 2 \<bar>x\<bar>\<rfloor> \<le> \<bar>x\<bar> \<and> \<bar>x\<bar> < 2 powr (real_of_int \<lfloor>log 2 \<bar>x\<bar>\<rfloor> + 1)"
    using floor_log_eq_powr_iff [of "\<bar>x\<bar>" 2 "\<lfloor>log 2 \<bar>x\<bar>\<rfloor>"] by simp
  then show "2 powi \<lfloor>log 2 \<bar>x\<bar>\<rfloor> \<le> \<bar>x\<bar>" and "\<bar>x\<bar> < 2 powi (\<lfloor>log 2 \<bar>x\<bar>\<rfloor> + 1)"
    by (simp_all add: powi_eq_powr)
qed

lemma ulp_exponent_normal:
  assumes "2 powi e \<le> \<bar>x\<bar>" and "\<bar>x\<bar> < 2 powi (e + 1)" and "- 1022 \<le> e"
  shows "ulp_exponent x = e - 52"
  using assms by (simp add: ulp_exponent_def floor_log2_eq [OF assms(1,2)])


lemma ulp_exponent_ge: "- 1074 \<le> ulp_exponent x"
  by (simp add: ulp_exponent_def)

lemma rnd64_scaled:
  assumes "2 ^ 52 \<le> \<bar>y\<bar>" and "\<bar>y\<bar> < 2 ^ 53" and "- 1074 \<le> j" and "x = y * 2 powi j"
  shows "rnd64 x = of_int (round_even y) * 2 powi j"
proof -
  have p: "(0::real) < 2 powi j" by simp
  have ax: "\<bar>x\<bar> = \<bar>y\<bar> * 2 powi j" using assms(4) by (simp add: abs_mult)
  have "2 powi (j + 52) = 2 ^ 52 * (2::real) powi j"
    by (simp add: power_int_add)
  then have lo: "2 powi (j + 52) \<le> \<bar>x\<bar>" using assms(1) ax p by simp
  have "2 powi (j + 52 + 1) = 2 ^ 53 * (2::real) powi j"
    by (simp add: power_int_add)
  then have hi: "\<bar>x\<bar> < 2 powi (j + 52 + 1)" using assms(2) ax p by simp
  have u: "ulp_exponent x = j"
    using ulp_exponent_normal [OF lo hi] assms(3) by simp
  have "x \<noteq> 0"
  proof
    assume "x = 0"
    with lo have "2 powi (j + 52) \<le> (0::real)" by simp
    moreover have "(0::real) < 2 powi (j + 52)" by simp
    ultimately show False by linarith
  qed
  moreover have "x / 2 powi j = y" using assms(4) by simp
  ultimately show ?thesis by (simp add: rnd64_def u)
qed


lemma rnd64_zero [simp]: "rnd64 0 = 0"
  by (simp add: rnd64_def)



lemma rnd64_representable:
  assumes k: "\<bar>k\<bar> \<le> 2 ^ 53" and j: "- 1074 \<le> j"
  shows "rnd64 (of_int k * 2 powi j) = of_int k * 2 powi j"
proof (cases "k = 0")
  case True
  then show ?thesis by simp
next
  case False
  define y :: real where "y = of_int k * 2 powi j"
  define L where "L = \<lfloor>log 2 \<bar>y\<bar>\<rfloor>"
  define i where "i = ulp_exponent y"
  have y0: "y \<noteq> 0" using False by (simp add: y_def)
  have ay: "\<bar>y\<bar> = of_int \<bar>k\<bar> * 2 powi j" by (simp add: y_def abs_mult)
  have "real_of_int \<bar>k\<bar> \<le> 2 ^ 53" using k by (metis of_int_le_iff of_int_numeral of_int_power)
  then have ub: "\<bar>y\<bar> \<le> 2 powi (53 + j)"
    by (simp add: ay power_int_add mult_right_mono)
  have lb: "2 powi L \<le> \<bar>y\<bar>" unfolding L_def by (rule binade(1) [OF y0])
  from lb ub have "(2::real) powi L \<le> 2 powi (53 + j)" by linarith
  have L: "L \<le> 53 + j"
  proof (rule ccontr)
    assume "\<not> L \<le> 53 + j"
    then have "(2::real) powi (53 + j) < 2 powi L"
      by (intro power_int_strict_increasing) auto
    with \<open>(2::real) powi L \<le> 2 powi (53 + j)\<close> show False by linarith
  qed
  have i: "i = max L (- 1022) - 52" by (simp add: i_def ulp_exponent_def L_def)
  show ?thesis
  proof (cases "L = 53 + j")
    case True
    then have "\<bar>y\<bar> = 2 powi (53 + j)" using lb ub by simp
    then have "of_int \<bar>k\<bar> * 2 powi j = (2::real) ^ 53 * 2 powi j"
      by (simp add: ay power_int_add)
    then have "real_of_int \<bar>k\<bar> = 2 ^ 53" by simp
    then have ak: "\<bar>k\<bar> = 2 ^ 53" by (metis of_int_eq_iff of_int_numeral of_int_power)
    then have "even \<bar>k\<bar>" by simp
    then have "even k" by simp
    then have ev: "k = 2 * (k div 2)" by simp
    have ij: "i = j + 1" using True j by (simp add: i)
    have "y / 2 powi i = of_int k / 2"
      by (simp add: y_def ij power_int_add)
    also have "\<dots> = of_int (k div 2)"
      by (subst ev) simp
    finally have "round_even (y / 2 powi i) = k div 2"
      by (simp only: round_even_of_int)
    then have "rnd64 y = of_int (k div 2) * 2 powi (j + 1)"
      using y0 by (simp add: rnd64_def i_def [symmetric] ij)
    also have "\<dots> = of_int (2 * (k div 2)) * 2 powi j"
      by (simp add: power_int_add)
    also have "\<dots> = y" using ev by (simp add: y_def)
    finally show ?thesis by (simp add: y_def)
  next
    case False
    with L j have ij: "i \<le> j" by (simp add: i)
    define n where "n = nat (j - i)"
    have jn: "j = i + int n" using ij by (simp add: n_def)
    have "y / 2 powi i = of_int k * 2 ^ n"
      by (simp add: y_def jn power_int_add)
    also have "\<dots> = of_int (k * 2 ^ n)" by simp
    finally have "round_even (y / 2 powi i) = k * 2 ^ n"
      by (simp only: round_even_of_int)
    then have "rnd64 y = of_int (k * 2 ^ n) * 2 powi i"
      using y0 by (simp add: rnd64_def i_def [symmetric])
    also have "\<dots> = y" by (simp add: y_def jn power_int_add)
    finally show ?thesis by (simp add: y_def)
  qed
qed








section \<open>Properties of the rounded residual analysis\<close>

lemma exact_model:
  "residuals_fp exact obs pred = residuals obs pred"
  "residual_mean_fp exact rs = residual_mean rs"
  "residual_std_fp exact rs = residual_std rs"
  "upper_threshold_fp exact cfg rs = upper_threshold cfg rs"
  "lower_threshold_fp exact cfg rs = lower_threshold cfg rs"
  "flag_anomalies_fp exact cfg rs = flag_anomalies cfg rs"
proof -
  have a: "fadd_fp exact x y = fadd x y" for x y
    by (cases x; cases y) (simp_all add: exact_def)
  have s: "fsub_fp exact x y = fsub x y" for x y
    by (cases x; cases y) (simp_all add: exact_def)
  have m: "fmul_fp exact x y = fmul x y" for x y
    by (cases x; cases y) (simp_all add: exact_def)
  have q: "fsqrt_fp exact x = fsqrt x" for x
    by (cases x) (simp_all add: exact_def)
  show "residuals_fp exact obs pred = residuals obs pred"
    by (simp add: residuals_fp_def residuals_def exact_def)
  show me: "residual_mean_fp exact rs = residual_mean rs"
    by (simp add: residual_mean_fp_def residual_mean_def series_mean_fp_def series_mean_def exact_def)
  show sd: "residual_std_fp exact rs = residual_std rs"
    by (simp add: residual_std_fp_def residual_std_def series_std_fp_def series_std_def q
        series_var_fp_def series_var_def Let_def power2_eq_square)
       (simp add: exact_def)
  show u: "upper_threshold_fp exact cfg rs = upper_threshold cfg rs"
    by (simp add: upper_threshold_fp_def upper_threshold_def a m me sd)
  show l: "lower_threshold_fp exact cfg rs = lower_threshold cfg rs"
    by (simp add: lower_threshold_fp_def lower_threshold_def s m me sd)
  show "flag_anomalies_fp exact cfg rs = flag_anomalies cfg rs"
    by (simp add: flag_anomalies_fp_def flag_anomalies_def u l)
qed








subsection \<open>Two runs evaluated in binary64\<close>

lemma binary64_sel [simp]: "rnd binary64 = rnd64" "fsum binary64 = seq_sum rnd64"
  by (simp_all add: binary64_def)

lemma rnd64_exactI:
  "x = of_int k * 2 powi j \<Longrightarrow> \<bar>k\<bar> \<le> 2 ^ 53 \<Longrightarrow> - 1074 \<le> j \<Longrightarrow> rnd64 x = x"
  using rnd64_representable [of k j] by simp






text \<open>
  The sum of the three values around 64 is 192 in each order of the two additions; the three
  equal tiny values and the squared deviations \<open>[q, 0, q]\<close> give the same sum in each
  order by commutativity.
\<close>

lemma near_64_sum_any_order:
  "rnd64 (rnd64 (64 - 1 / 2 ^ 46 + 64) + (64 + 1 / 2 ^ 46)) = 192"
  "rnd64 (64 - 1 / 2 ^ 46 + rnd64 (64 + (64 + 1 / 2 ^ 46))) = 192"
  "rnd64 (rnd64 (64 - 1 / 2 ^ 46 + (64 + 1 / 2 ^ 46)) + 64) = 192"
proof -
  define x1 :: real where "x1 = 64 - 1 / 2 ^ 46"
  define x3 :: real where "x3 = 64 + 1 / 2 ^ 46"
  define s2 :: real where "s2 = 128 - 1 / 2 ^ 46"
  have a: "rnd64 (x1 + 64) = s2"
    unfolding x1_def s2_def
    using rnd64_exactI [of "64 - 1 / 2 ^ 46 + 64" 9007199254740991 "- 46"] by simp
  have b: "rnd64 (s2 + x3) = 192"
    unfolding x3_def s2_def
    using rnd64_exactI [of "128 - 1 / 2 ^ 46 + (64 + 1 / 2 ^ 46)" 3 6] by simp
  have r1: "round_even (9007199254740993 / 2) = 4503599627370496"
    by (simp add: round_even_def)
  have c: "rnd64 (64 + x3) = 128"
    unfolding x3_def
    using rnd64_scaled [of "9007199254740993 / 2" "- 45" "64 + (64 + 1 / 2 ^ 46)"]
    by (simp add: r1)
  have r2: "round_even (13510798882111487 / 2) = 6755399441055744"
    by (simp add: round_even_def)
  have d: "rnd64 (x1 + 128) = 192"
    unfolding x1_def
    using rnd64_scaled [of "13510798882111487 / 2" "- 45" "64 - 1 / 2 ^ 46 + 128"]
    by (simp add: r2)
  have e: "rnd64 (x1 + x3) = 128"
    unfolding x1_def x3_def
    using rnd64_exactI [of "64 - 1 / 2 ^ 46 + (64 + 1 / 2 ^ 46)" 1 7] by simp
  have f: "rnd64 (128 + 64) = 192"
    using rnd64_exactI [of "128 + 64" 3 6] by simp
  show "rnd64 (rnd64 (64 - 1 / 2 ^ 46 + 64) + (64 + 1 / 2 ^ 46)) = 192"
    using a b by (simp only: x1_def x3_def)
  show "rnd64 (64 - 1 / 2 ^ 46 + rnd64 (64 + (64 + 1 / 2 ^ 46))) = 192"
    using c d by (simp only: x1_def x3_def)
  show "rnd64 (rnd64 (64 - 1 / 2 ^ 46 + (64 + 1 / 2 ^ 46)) + 64) = 192"
    using e f by (simp only: x1_def x3_def)
qed

subsection \<open>Zero deviation\<close>




subsection \<open>Width of the threshold band\<close>




end
